theory Spec2Isabelle
  imports Complex_Main "HOL-Library.Log_Nat"
begin

section \<open>Data model of \<open>App.tsx\<close>\<close>

text \<open>
  A JavaScript \<open>number\<close> stored in a product field is either a numeric value or
  \<open>NaN\<close> (what \<open>Number(e.target.value)\<close> leaves behind for a non-numeric entry).
  The value \<open>Num r\<close> is the number \<open>r\<close>. The aggregator is given twice: first in exact
  arithmetic, where sums, products and quotients are those of the reals, and then in
  the arithmetic of IEEE 754 doubles, where every operation rounds its exact result
  to the nearest double and can overflow to an infinity or give NaN.
\<close>

datatype js_number = Num real | NaN

text \<open>
  \<^verbatim>\<open>export type Product = { id: string; name: string; qty: number; price: number;
                          category: Category | "" };\<close>
  The field \<open>id\<close> is called \<open>id_p\<close> here, apart from the identity function of HOL.
\<close>

record product =
  id_p :: string
  name :: string
  qty :: js_number
  price :: js_number
  category :: string



section \<open>The aggregator in exact arithmetic\<close>










section \<open>The aggregator in double arithmetic\<close>

text \<open>
  A double is a finite number, an infinity or NaN. The two zeros are one value here:
  the block never tells them apart (\<open>x || 0\<close> sends both to \<open>0\<close>, a sum that starts
  from \<open>0\<close> is never \<open>-0\<close>, and it divides only by a positive total).
\<close>

datatype double = Finite real | PosInfinity | NegInfinity | NotANumber

text \<open>
  Rounding to the nearest double, ties to even. For \<open>a > 0\<close>, \<open>floor_log2 a\<close> is the
  integer \<open>k\<close> with \<open>2^k \<le> a < 2^(k+1)\<close>, from the length in bits of an integer;
  \<open>scale2 e\<close> is \<open>2^e\<close>. A double near \<open>x\<close> is a multiple of \<open>2^e\<close> for
  \<open>e = ulp_exponent x\<close>: 52 below the exponent of \<open>x\<close>, and - 1074 in the subnormal
  range. \<open>nearest x\<close> is the multiple nearest to \<open>x\<close>, and \<open>round_double\<close> turns what
  reaches \<open>2^1024\<close> into an infinity.
\<close>

definition floor_log2 :: "real \<Rightarrow> int" where
  "floor_log2 a = (if 1 \<le> a then bitlen \<lfloor>a\<rfloor> - 1 else - bitlen (\<lceil>1 / a\<rceil> - 1))"

definition scale2 :: "int \<Rightarrow> real" where
  "scale2 e = (if 0 \<le> e then 2 ^ nat e else 1 / 2 ^ nat (- e))"

definition round_even :: "real \<Rightarrow> int" where
  "round_even y =
     (if y - of_int \<lfloor>y\<rfloor> < 1 / 2 then \<lfloor>y\<rfloor>
      else if 1 / 2 < y - of_int \<lfloor>y\<rfloor> then \<lfloor>y\<rfloor> + 1
      else if even \<lfloor>y\<rfloor> then \<lfloor>y\<rfloor> else \<lfloor>y\<rfloor> + 1)"

definition ulp_exponent :: "real \<Rightarrow> int" where
  "ulp_exponent x = max (- 1074) (floor_log2 \<bar>x\<bar> - 52)"

definition nearest :: "real \<Rightarrow> real" where
  "nearest x =
     (if x = 0 then 0
      else of_int (round_even (x / scale2 (ulp_exponent x))) * scale2 (ulp_exponent x))"

definition round_double :: "real \<Rightarrow> double" where
  "round_double x =
     (if 2 ^ 1024 \<le> nearest x then PosInfinity
      else if nearest x \<le> - (2 ^ 1024) then NegInfinity
      else Finite (nearest x))"

text \<open>
  The operations of the block on doubles, \<open>+\<close>, \<open>-\<close>, \<open>*\<close>, \<open>/\<close> and \<open>>\<close>: the exact
  result of finite operands is rounded; the other cases are those of IEEE 754.
\<close>

fun add_d :: "double \<Rightarrow> double \<Rightarrow> double" where
  "add_d NotANumber y = NotANumber"
| "add_d x NotANumber = NotANumber"
| "add_d PosInfinity NegInfinity = NotANumber"
| "add_d NegInfinity PosInfinity = NotANumber"
| "add_d PosInfinity y = PosInfinity"
| "add_d x PosInfinity = PosInfinity"
| "add_d NegInfinity y = NegInfinity"
| "add_d x NegInfinity = NegInfinity"
| "add_d (Finite a) (Finite b) = round_double (a + b)"















section \<open>The state of the component and its handlers\<close>

text \<open>
  The four \<open>useState\<close> cells of \<open>App\<close>. A handler is a function from the state before
  the event to the state after it; \<open>setProducts((prev) => ...)\<close> and
  \<open>setCategories((c) => ...)\<close> are updates of the field.
\<close>

record app_state =
  categories :: "string list"
  products :: "product list"
  newCat :: string
  openAddCat :: bool

text \<open>\<^verbatim>\<open>setProducts((prev) => prev.filter((p) => p.id !== id))\<close>\<close>

definition removeRow :: "string \<Rightarrow> app_state \<Rightarrow> app_state" where
  "removeRow i st = st\<lparr>products := filter (\<lambda>p. id_p p \<noteq> i) (products st)\<rparr>"

text \<open>
  A \<open>Partial<Product>\<close>: each field is present (\<open>Some\<close>) or left out (\<open>None\<close>).
  The spread \<^verbatim>\<open>{ ...p, ...patch }\<close> takes a field from \<open>patch\<close> when it is present
  there and from \<open>p\<close> otherwise.
\<close>

record product_patch =
  patch_id :: "string option"
  patch_name :: "string option"
  patch_qty :: "js_number option"
  patch_price :: "js_number option"
  patch_category :: "string option"

definition spread :: "product \<Rightarrow> product_patch \<Rightarrow> product" where
  "spread p patch =
     \<lparr>id_p = (case patch_id patch of None \<Rightarrow> id_p p | Some v \<Rightarrow> v),
      name = (case patch_name patch of None \<Rightarrow> name p | Some v \<Rightarrow> v),
      qty = (case patch_qty patch of None \<Rightarrow> qty p | Some v \<Rightarrow> v),
      price = (case patch_price patch of None \<Rightarrow> price p | Some v \<Rightarrow> v),
      category = (case patch_category patch of None \<Rightarrow> category p | Some v \<Rightarrow> v)\<rparr>"

text \<open>\<^verbatim>\<open>setProducts((prev) => prev.map((p) => (p.id === id ? { ...p, ...patch } : p)))\<close>\<close>

definition updateRow :: "string \<Rightarrow> product_patch \<Rightarrow> app_state \<Rightarrow> app_state" where
  "updateRow i patch st =
     st\<lparr>products := map (\<lambda>p. if id_p p = i then spread p patch else p) (products st)\<rparr>"

text \<open>
  \<open>String.prototype.trim\<close> removes white space and line terminators from both ends.
  A \<open>char\<close> is one code unit below 256; the white space of ECMAScript in that range is
  TAB, LF, VT, FF, CR, SP and NBSP.
\<close>

definition is_white_space :: "char \<Rightarrow> bool" where
  "is_white_space c =
     (c = CHR 0x09 \<or> c = CHR 0x0A \<or> c = CHR 0x0B \<or> c = CHR 0x0C \<or> c = CHR 0x0D
      \<or> c = CHR 0x20 \<or> c = CHR 0xA0)"

definition trim :: "string \<Rightarrow> string" where
  "trim s = rev (dropWhile is_white_space (rev (dropWhile is_white_space s)))"

text \<open>The text field of the dialog: \<^verbatim>\<open>onChange={(e) => setNewCat(e.target.value)}\<close>.\<close>

definition setNewCat :: "string \<Rightarrow> app_state \<Rightarrow> app_state" where
  "setNewCat v st = st\<lparr>newCat := v\<rparr>"

text \<open>
  \<^verbatim>\<open>
  const addCategory = () => {
    const trimmed = newCat.trim();
    if (!trimmed) return;
    if (!categories.includes(trimmed)) setCategories((c) => [...c, trimmed]);
    setNewCat("");
    setOpenAddCat(false);
  };\<close>
\<close>

definition addCategory :: "app_state \<Rightarrow> app_state" where
  "addCategory st =
     (let trimmed = trim (newCat st) in
      if trimmed = [] then st
      else
        (if trimmed \<notin> set (categories st)
         then st\<lparr>categories := categories st @ [trimmed]\<rparr>
         else st)
        \<lparr>newCat := [], openAddCat := False\<rparr>)"

text \<open>
  \<^verbatim>\<open>
  const resetAll = () => {
    if (!confirm("Barchasini tozalaysizmi?")) return;
    setProducts([]);
    setCategories(["Xitoy", "O'zbekiston"]);
  };\<close>
  \<open>window.confirm\<close> blocks until the user answers; the answer is the first argument.
\<close>

definition default_categories :: "string list" where
  "default_categories = [''Xitoy'', ''O'zbekiston'']"

definition resetAll :: "(string \<Rightarrow> bool) \<Rightarrow> app_state \<Rightarrow> app_state" where
  "resetAll confirm st =
     (if \<not> confirm ''Barchasini tozalaysizmi?'' then st
      else st\<lparr>products := [], categories := default_categories\<rparr>)"

section \<open>Reading from local storage\<close>

text \<open>
  \<open>localStorage\<close> is a map from keys to strings, \<open>getItem\<close> of an absent key is \<open>null\<close>
  (\<open>None\<close>). \<open>JSON.parse\<close> is a parameter: it returns the value or throws. The outcome
  of a call is \<open>Inr\<close> of the value returned or \<open>Inl\<close> of the exception that leaves it.
\<close>

datatype js_error = SyntaxError

definition LS_PRODUCTS :: string where
  "LS_PRODUCTS = ''app.products''"

definition LS_CATEGORIES :: string where
  "LS_CATEGORIES = ''app.categories''"

text \<open>
  The body of the \<open>try\<close> block of \<open>loadLS\<close>:
  \<^verbatim>\<open>
  const raw = localStorage.getItem(key);
  if (!raw) return fallback;
  return JSON.parse(raw) as T;\<close>
  \<open>!raw\<close> holds of \<open>null\<close> and of the empty string.
\<close>

definition loadLS_try ::
  "(string \<Rightarrow> js_error + 'a) \<Rightarrow> (string \<rightharpoonup> string) \<Rightarrow> string \<Rightarrow> 'a \<Rightarrow> js_error + 'a" where
  "loadLS_try JSON_parse localStorage key fallback =
     (case localStorage key of
        None \<Rightarrow> Inr fallback
      | Some raw \<Rightarrow> (if raw = [] then Inr fallback else JSON_parse raw))"

text \<open>\<^verbatim>\<open>try { ... } catch { return fallback; }\<close>\<close>

definition loadLS ::
  "(string \<Rightarrow> js_error + 'a) \<Rightarrow> (string \<rightharpoonup> string) \<Rightarrow> string \<Rightarrow> 'a \<Rightarrow> js_error + 'a" where
  "loadLS JSON_parse localStorage key fallback =
     (case loadLS_try JSON_parse localStorage key fallback of
        Inl e \<Rightarrow> Inr fallback
      | Inr v \<Rightarrow> Inr v)"

section \<open>Notions used to state the properties\<close>






section \<open>The total\<close>





section \<open>The rows before and after sorting\<close>






section \<open>Shares\<close>



section \<open>Rounding to a double\<close>

lemma scale2_pos: "0 < scale2 e"
  by (simp add: scale2_def)

lemma scale2_nat: "0 \<le> e \<Longrightarrow> scale2 e = 2 ^ nat e"
  by (simp add: scale2_def)

lemma scale2_neg: "e \<le> 0 \<Longrightarrow> scale2 e = 1 / 2 ^ nat (- e)"
  by (simp add: scale2_def)

lemma scale2_powi: "scale2 e = 2 powi e"
  by (simp add: scale2_def power_int_def field_simps)

lemma scale2_add: "scale2 (a + b) = scale2 a * scale2 b"
  by (simp add: scale2_powi power_int_add)

lemma scale2_mono: "a \<le> b \<Longrightarrow> scale2 a \<le> scale2 b"
  by (simp add: scale2_powi power_int_increasing)

text \<open>\<open>floor_log2 a\<close> is the exponent of the power of two at or below \<open>a\<close>.\<close>

lemma floor_log2_bounds:
  assumes "0 < a"
  shows "scale2 (floor_log2 a) \<le> a \<and> a < scale2 (floor_log2 a + 1)"
proof (cases "1 \<le> a")
  case True
  define n where "n = \<lfloor>a\<rfloor>"
  have n: "0 < n" using True by (simp add: n_def)
  have k: "floor_log2 a = bitlen n - 1" using True by (simp add: floor_log2_def n_def)
  have b1: "1 \<le> bitlen n" using n by (simp add: bitlen_alt_def)
  from bitlen_bounds [OF n] have lo: "2 ^ nat (bitlen n - 1) \<le> n" and hi: "n < 2 ^ nat (bitlen n)"
    by simp_all
  have "real_of_int (2 ^ nat (bitlen n - 1)) \<le> real_of_int n" using lo by linarith
  also have "real_of_int n \<le> a" by (simp add: n_def)
  finally have 1: "scale2 (floor_log2 a) \<le> a" using b1 by (simp add: k scale2_nat)
  have "n + 1 \<le> 2 ^ nat (bitlen n)" using hi by simp
  then have "real_of_int (n + 1) \<le> real_of_int (2 ^ nat (bitlen n))" by linarith
  moreover have "a < real_of_int (n + 1)" by (simp add: n_def)
  ultimately have 2: "a < scale2 (floor_log2 a + 1)" using b1 by (simp add: k scale2_nat)
  show ?thesis using 1 2 by simp
next
  case False
  define n where "n = \<lceil>1 / a\<rceil>"
  define B where "B = bitlen (n - 1)"
  have inv: "1 < 1 / a" using False assms by simp
  have n2: "1 < n" using inv by (simp add: n_def less_ceiling_iff)
  have n: "0 < n - 1" using n2 by simp
  have k: "floor_log2 a = - B" using False by (simp add: floor_log2_def n_def B_def)
  have b1: "1 \<le> B" using n by (simp add: bitlen_alt_def B_def)
  from bitlen_bounds [OF n] have lo: "2 ^ nat (B - 1) \<le> n - 1" and hi: "n - 1 < 2 ^ nat B"
    by (simp_all add: B_def)
  have ceil: "real_of_int n - 1 < 1 / a" "1 / a \<le> real_of_int n"
    using ceiling_correct [of "1 / a"] by (simp_all add: n_def)
  have "n \<le> 2 ^ nat B" using hi by simp
  then have "real_of_int n \<le> real_of_int (2 ^ nat B)" by (simp only: of_int_le_iff)
  then have "real_of_int n \<le> 2 ^ nat B" by simp
  with ceil(2) have "1 / a \<le> 2 ^ nat B" by (rule order_trans)
  then have 1: "1 / 2 ^ nat B \<le> a"
    using assms by (simp add: field_simps)
  have "real_of_int (2 ^ nat (B - 1)) \<le> real_of_int (n - 1)"
    using lo by (simp only: of_int_le_iff)
  then have "2 ^ nat (B - 1) \<le> real_of_int n - 1" by simp
  then have "2 ^ nat (B - 1) < 1 / a" using ceil(1) by (rule order_le_less_trans)
  then have 2: "a < 1 / 2 ^ nat (B - 1)"
    using assms by (simp add: field_simps)
  have "scale2 (floor_log2 a + 1) = 1 / 2 ^ nat (B - 1)"
    using b1 by (simp add: k scale2_neg)
  moreover have "scale2 (floor_log2 a) = 1 / 2 ^ nat B"
    using b1 by (simp add: k scale2_neg)
  ultimately show ?thesis using 1 2 by simp
qed

lemma round_even_near: "\<bar>of_int (round_even y) - y\<bar> \<le> 1 / 2"
  unfolding round_even_def by (auto simp: abs_if) linarith+

lemma round_even_bound:
  assumes "\<bar>y\<bar> \<le> of_int N"
  shows "\<bar>round_even y\<bar> \<le> N"
proof -
  have "\<bar>real_of_int (round_even y)\<bar> \<le> \<bar>of_int (round_even y) - y\<bar> + \<bar>y\<bar>" by linarith
  also have "\<dots> \<le> 1 / 2 + of_int N" using round_even_near [of y] assms by linarith
  finally have "real_of_int \<bar>round_even y\<bar> < of_int (N + 1)" by simp
  then have "\<bar>round_even y\<bar> < N + 1" by (simp only: of_int_less_iff)
  then show ?thesis by simp
qed

text \<open>\<open>nearest x\<close> is within half a unit in the last place of \<open>x\<close>.\<close>

lemma nearest_near:
  "\<bar>nearest x - x\<bar> \<le> scale2 (ulp_exponent x) / 2"
proof (cases "x = 0")
  case True
  then show ?thesis using scale2_pos [of "ulp_exponent 0"] by (simp add: nearest_def)
next
  case False
  define u where "u = scale2 (ulp_exponent x)"
  have u: "0 < u" by (simp add: u_def scale2_pos)
  have "nearest x - x = (of_int (round_even (x / u)) - x / u) * u"
    using False u by (simp add: nearest_def u_def field_simps)
  then have "\<bar>nearest x - x\<bar> = \<bar>of_int (round_even (x / u)) - x / u\<bar> * u"
    using u by (simp add: abs_mult)
  also have "\<dots> \<le> 1 / 2 * u"
    using round_even_near [of "x / u"] u by (intro mult_right_mono) simp_all
  finally show ?thesis by (simp add: u_def)
qed

text \<open>The significand of \<open>nearest x\<close> has at most 53 bits.\<close>

lemma nearest_significand:
  assumes "x \<noteq> 0"
  shows "\<bar>round_even (x / scale2 (ulp_exponent x))\<bar> \<le> 2 ^ 53"
proof -
  define k where "k = floor_log2 \<bar>x\<bar>"
  define u where "u = scale2 (ulp_exponent x)"
  have u: "0 < u" by (simp add: u_def scale2_pos)
  have "scale2 (k - 52) \<le> u"
    unfolding u_def ulp_exponent_def k_def by (rule scale2_mono) simp
  then have "scale2 (k - 52) * 2 ^ 53 \<le> u * 2 ^ 53"
    by (rule mult_right_mono) simp
  moreover have "\<bar>x\<bar> < scale2 (k + 1)"
    using floor_log2_bounds [of "\<bar>x\<bar>"] assms by (simp add: k_def)
  moreover have "scale2 (k + 1) = scale2 (k - 52) * 2 ^ 53"
    using scale2_add [of "k - 52" 53] by (simp add: scale2_nat add.commute)
  ultimately have "\<bar>x\<bar> \<le> u * 2 ^ 53"
    by linarith
  then have "\<bar>x / u\<bar> \<le> 2 ^ 53" using u by (simp add: field_simps)
  then have "\<bar>x / u\<bar> \<le> real_of_int (2 ^ 53)" by simp
  then show ?thesis unfolding u_def by (rule round_even_bound)
qed

lemmas double_eval = round_double_def nearest_def ulp_exponent_def floor_log2_def scale2_def
  round_even_def compute_bitlen

text \<open>In doubles \<open>0.1 + 0.2\<close> is not \<open>0.3\<close>, and \<open>2^53 + 1\<close> is \<open>2^53\<close>.\<close>

lemma add_d_tenths:
  "add_d (round_double (1 / 10)) (round_double (2 / 10))
     = Finite (1351079888211149 / 4503599627370496)
   \<and> round_double (3 / 10) = Finite (5404319552844595 / 18014398509481984)"
  by (simp add: double_eval)

lemma add_d_two_to_53:
  "add_d (Finite 9007199254740992) (Finite 1) = Finite 9007199254740992"
  by (simp add: double_eval)


section \<open>Sums of subtotals and of shares\<close>










section \<open>Doubles on whole numbers\<close>





















section \<open>Subtotals and total\<close>




section \<open>Shares and total\<close>




section \<open>Order of the rows\<close>
















section \<open>Adding a category\<close>

lemma trim_suffix:
  "dropWhile is_white_space s
     = trim s @ rev (takeWhile is_white_space (rev (dropWhile is_white_space s)))"
proof -
  define d where "d = dropWhile is_white_space s"
  have "rev (takeWhile is_white_space (rev d) @ dropWhile is_white_space (rev d)) = d"
    by (simp only: takeWhile_dropWhile_id rev_rev_ident)
  then have "rev (dropWhile is_white_space (rev d)) @ rev (takeWhile is_white_space (rev d)) = d"
    by (simp only: rev_append)
  then show ?thesis
    by (simp only: trim_def d_def)
qed

lemma trim_decompose:
  "s = takeWhile is_white_space s @ trim s
         @ rev (takeWhile is_white_space (rev (dropWhile is_white_space s)))"
proof -
  have "s = takeWhile is_white_space s @ dropWhile is_white_space s"
    by (simp only: takeWhile_dropWhile_id)
  also have "dropWhile is_white_space s
     = trim s @ rev (takeWhile is_white_space (rev (dropWhile is_white_space s)))"
    by (rule trim_suffix)
  finally show ?thesis .
qed

lemma trim_last: "trim s \<noteq> [] \<Longrightarrow> \<not> is_white_space (last (trim s))"
  by (simp add: trim_def last_rev hd_dropWhile)

lemma trim_hd:
  assumes "trim s \<noteq> []"
  shows "\<not> is_white_space (hd (trim s))"
proof -
  define d where "d = dropWhile is_white_space s"
  have d: "d = trim s @ rev (takeWhile is_white_space (rev d))"
    unfolding d_def by (rule trim_suffix)
  have "d \<noteq> []" using d assms by auto
  then have "\<not> is_white_space (hd d)" unfolding d_def by (rule hd_dropWhile)
  moreover have "hd d = hd (trim s)" using assms by (subst d) simp
  ultimately show ?thesis by simp
qed

lemma categories_addCategory:
  "categories (addCategory (setNewCat label st))
     = (if trim label = [] \<or> trim label \<in> set (categories st) then categories st
        else categories st @ [trim label])"
  by (simp add: addCategory_def setNewCat_def Let_def)

text \<open>
  Claim C5. \<open>addCategory\<close> trims the white space around the label (the label is white
  space, the trimmed label, white space, and the trimmed label neither starts nor ends
  with white space). When the trimmed label is empty or is already in the category set,
  the category set stays as it is; otherwise the trimmed label is appended at the end.
  So two calls with the same label, one that is not blank, on a category set that holds
  it at most once, leave exactly one entry equal to the trimmed label.
\<close>

theorem addCategory_contract:
  "(trim label = [] \<or> trim label \<in> set (categories st) \<longrightarrow>
      categories (addCategory (setNewCat label st)) = categories st)
   \<and> (trim label \<noteq> [] \<and> trim label \<notin> set (categories st) \<longrightarrow>
      categories (addCategory (setNewCat label st)) = categories st @ [trim label])
   \<and> (trim label \<noteq> [] \<and> count_list (categories st) (trim label) \<le> 1 \<longrightarrow>
      count_list (categories (addCategory (setNewCat label (addCategory (setNewCat label st)))))
        (trim label) = 1)
   \<and> (\<exists>l r. label = l @ trim label @ r
          \<and> list_all is_white_space l \<and> list_all is_white_space r)
   \<and> (trim label \<noteq> [] \<longrightarrow>
        \<not> is_white_space (hd (trim label)) \<and> \<not> is_white_space (last (trim label)))"
proof -
  let ?t = "trim label"
  have twice: "count_list
      (categories (addCategory (setNewCat label (addCategory (setNewCat label st))))) ?t = 1"
    if "?t \<noteq> []" "count_list (categories st) ?t \<le> 1"
  proof (cases "?t \<in> set (categories st)")
    case True
    then have "count_list (categories st) ?t > 0"
      using count_list_0_iff [of "categories st" ?t] by simp
    with that True show ?thesis by (simp add: categories_addCategory)
  next
    case False
    with that show ?thesis by (simp add: categories_addCategory)
  qed
  have dec: "\<exists>l r. label = l @ ?t @ r \<and> list_all is_white_space l \<and> list_all is_white_space r"
  proof (intro exI conjI)
    show "label = takeWhile is_white_space label @ ?t
         @ rev (takeWhile is_white_space (rev (dropWhile is_white_space label)))"
      by (rule trim_decompose)
    show "list_all is_white_space (takeWhile is_white_space label)"
      by (simp add: list_all_iff) (meson set_takeWhileD)
    show "list_all is_white_space
        (rev (takeWhile is_white_space (rev (dropWhile is_white_space label))))"
      by (simp add: list_all_iff) (meson set_takeWhileD)
  qed
  show ?thesis
    using twice dec trim_hd [of label] trim_last [of label]
    by (simp add: categories_addCategory)
qed

theorem addCategory_contract_witness:
  "trim ''  '' = []
   \<and> categories (addCategory (setNewCat ''  '' \<lparr>categories = [''Xitoy'', ''O'zbekiston''], products = [], newCat = [], openAddCat = True\<rparr>))
       = [''Xitoy'', ''O'zbekiston'']
   \<and> trim ''Xitoy'' \<in> set (categories \<lparr>categories = [''Xitoy'', ''O'zbekiston''], products = [], newCat = [], openAddCat = True\<rparr>)
   \<and> categories (addCategory (setNewCat ''Xitoy'' \<lparr>categories = [''Xitoy'', ''O'zbekiston''], products = [], newCat = [], openAddCat = True\<rparr>))
       = [''Xitoy'', ''O'zbekiston'']
   \<and> trim '' Turkiya  '' = ''Turkiya''
   \<and> ''Turkiya'' \<notin> set (categories \<lparr>categories = [''Xitoy'', ''O'zbekiston''], products = [], newCat = [], openAddCat = True\<rparr>)
   \<and> categories (addCategory (setNewCat '' Turkiya  '' \<lparr>categories = [''Xitoy'', ''O'zbekiston''], products = [], newCat = [], openAddCat = True\<rparr>))
       = [''Xitoy'', ''O'zbekiston'', ''Turkiya'']
   \<and> count_list (categories \<lparr>categories = [''Xitoy'', ''O'zbekiston''], products = [], newCat = [], openAddCat = True\<rparr>) ''Turkiya'' \<le> 1
   \<and> count_list (categories (addCategory (setNewCat '' Turkiya  ''
        (addCategory (setNewCat '' Turkiya  '' \<lparr>categories = [''Xitoy'', ''O'zbekiston''], products = [], newCat = [], openAddCat = True\<rparr>))))) ''Turkiya'' = 1"
proof -
  have t: "trim ''  '' = []" "trim ''Xitoy'' = ''Xitoy''" "trim '' Turkiya  '' = ''Turkiya''"
    by (simp_all add: trim_def is_white_space_def)
  show ?thesis
    using
      addCategory_contract [of "''  ''" "\<lparr>categories = [''Xitoy'', ''O'zbekiston''], products = [], newCat = [], openAddCat = True\<rparr>"]
      addCategory_contract [of "''Xitoy''" "\<lparr>categories = [''Xitoy'', ''O'zbekiston''], products = [], newCat = [], openAddCat = True\<rparr>"]
      addCategory_contract [of "'' Turkiya  ''" "\<lparr>categories = [''Xitoy'', ''O'zbekiston''], products = [], newCat = [], openAddCat = True\<rparr>"]
    by (simp add: t)
qed

section \<open>Reset\<close>

text \<open>
  Claim C6. When the user confirms, \<open>resetAll\<close> leaves the empty product list and the
  default category set, which has two elements; when the user declines, the state is the
  one before.
\<close>

theorem resetAll_contract:
  "(confirm ''Barchasini tozalaysizmi?'' \<longrightarrow>
      products (resetAll confirm st) = []
      \<and> categories (resetAll confirm st) = [''Xitoy'', ''O'zbekiston'']
      \<and> length (categories (resetAll confirm st)) = 2)
   \<and> (\<not> confirm ''Barchasini tozalaysizmi?'' \<longrightarrow> resetAll confirm st = st)"
  by (simp add: resetAll_def default_categories_def)

theorem resetAll_contract_witness:
  "products (resetAll (\<lambda>msg. True)
       \<lparr>categories = [''Xitoy'', ''Turkiya''],
        products = [\<lparr>id_p = ''1'', name = ''Telefon'', qty = Num 10, price = Num 200, category = ''Xitoy''\<rparr>,
                    \<lparr>id_p = ''2'', name = ''Non'', qty = Num 20, price = Num 10, category = ''O'zbekiston''\<rparr>],
        newCat = ''abc'', openAddCat = False\<rparr>) = []
   \<and> categories (resetAll (\<lambda>msg. True)
       \<lparr>categories = [''Xitoy'', ''Turkiya''],
        products = [\<lparr>id_p = ''1'', name = ''Telefon'', qty = Num 10, price = Num 200, category = ''Xitoy''\<rparr>,
                    \<lparr>id_p = ''2'', name = ''Non'', qty = Num 20, price = Num 10, category = ''O'zbekiston''\<rparr>],
        newCat = ''abc'', openAddCat = False\<rparr>) = [''Xitoy'', ''O'zbekiston'']
   \<and> resetAll (\<lambda>msg. False)
       \<lparr>categories = [''Xitoy'', ''Turkiya''],
        products = [\<lparr>id_p = ''1'', name = ''Telefon'', qty = Num 10, price = Num 200, category = ''Xitoy''\<rparr>,
                    \<lparr>id_p = ''2'', name = ''Non'', qty = Num 20, price = Num 10, category = ''O'zbekiston''\<rparr>],
        newCat = ''abc'', openAddCat = False\<rparr>
     = \<lparr>categories = [''Xitoy'', ''Turkiya''],
        products = [\<lparr>id_p = ''1'', name = ''Telefon'', qty = Num 10, price = Num 200, category = ''Xitoy''\<rparr>,
                    \<lparr>id_p = ''2'', name = ''Non'', qty = Num 20, price = Num 10, category = ''O'zbekiston''\<rparr>],
        newCat = ''abc'', openAddCat = False\<rparr>"
  using
    resetAll_contract [of "\<lambda>msg. True" "\<lparr>categories = [''Xitoy'', ''Turkiya''],
        products = [\<lparr>id_p = ''1'', name = ''Telefon'', qty = Num 10, price = Num 200, category = ''Xitoy''\<rparr>,
                    \<lparr>id_p = ''2'', name = ''Non'', qty = Num 20, price = Num 10, category = ''O'zbekiston''\<rparr>],
        newCat = ''abc'', openAddCat = False\<rparr>"]
    resetAll_contract [of "\<lambda>msg. False" "\<lparr>categories = [''Xitoy'', ''Turkiya''],
        products = [\<lparr>id_p = ''1'', name = ''Telefon'', qty = Num 10, price = Num 200, category = ''Xitoy''\<rparr>,
                    \<lparr>id_p = ''2'', name = ''Non'', qty = Num 20, price = Num 10, category = ''O'zbekiston''\<rparr>],
        newCat = ''abc'', openAddCat = False\<rparr>"]
  by simp

section \<open>Removing and updating a row\<close>

text \<open>
  Claim C7. After \<open>removeRow id\<close> no record has the identifier \<open>id\<close>; when no record had
  it, nothing changes; in every case the records with other identifiers are the same,
  in the same order, before and after.
\<close>

theorem removeRow_contract:
  "(\<forall>p \<in> set (products (removeRow i st)). id_p p \<noteq> i)
   \<and> (i \<notin> id_p ` set (products st) \<longrightarrow> removeRow i st = st)
   \<and> filter (\<lambda>p. id_p p \<noteq> i) (products (removeRow i st))
       = filter (\<lambda>p. id_p p \<noteq> i) (products st)
   \<and> length (products (removeRow i st)) + length (filter (\<lambda>p. id_p p = i) (products st))
       = length (products st)
   \<and> categories (removeRow i st) = categories st"
proof -
  have "filter (\<lambda>p. id_p p \<noteq> i) (products st) = products st"
    if "i \<notin> id_p ` set (products st)"
    using that by (auto simp: filter_id_conv)
  moreover have "length (filter (\<lambda>p. id_p p \<noteq> i) (products st))
      + length (filter (\<lambda>p. id_p p = i) (products st)) = length (products st)"
    using sum_length_filter_compl [of "\<lambda>p. id_p p = i" "products st"] by simp
  ultimately show ?thesis by (auto simp: removeRow_def)
qed

theorem removeRow_contract_witness:
  "products (removeRow ''1''
       \<lparr>categories = [''Xitoy'', ''Turkiya''],
        products = [\<lparr>id_p = ''1'', name = ''Telefon'', qty = Num 10, price = Num 200, category = ''Xitoy''\<rparr>,
                    \<lparr>id_p = ''2'', name = ''Non'', qty = Num 20, price = Num 10, category = ''O'zbekiston''\<rparr>],
        newCat = ''abc'', openAddCat = False\<rparr>)
     = [\<lparr>id_p = ''2'', name = ''Non'', qty = Num 20, price = Num 10, category = ''O'zbekiston''\<rparr>]
   \<and> ''9'' \<notin> id_p ` set (products
       \<lparr>categories = [''Xitoy'', ''Turkiya''],
        products = [\<lparr>id_p = ''1'', name = ''Telefon'', qty = Num 10, price = Num 200, category = ''Xitoy''\<rparr>,
                    \<lparr>id_p = ''2'', name = ''Non'', qty = Num 20, price = Num 10, category = ''O'zbekiston''\<rparr>],
        newCat = ''abc'', openAddCat = False\<rparr>)
   \<and> removeRow ''9''
       \<lparr>categories = [''Xitoy'', ''Turkiya''],
        products = [\<lparr>id_p = ''1'', name = ''Telefon'', qty = Num 10, price = Num 200, category = ''Xitoy''\<rparr>,
                    \<lparr>id_p = ''2'', name = ''Non'', qty = Num 20, price = Num 10, category = ''O'zbekiston''\<rparr>],
        newCat = ''abc'', openAddCat = False\<rparr>
     = \<lparr>categories = [''Xitoy'', ''Turkiya''],
        products = [\<lparr>id_p = ''1'', name = ''Telefon'', qty = Num 10, price = Num 200, category = ''Xitoy''\<rparr>,
                    \<lparr>id_p = ''2'', name = ''Non'', qty = Num 20, price = Num 10, category = ''O'zbekiston''\<rparr>],
        newCat = ''abc'', openAddCat = False\<rparr>"
  using
    removeRow_contract [of "''1''" "\<lparr>categories = [''Xitoy'', ''Turkiya''],
        products = [\<lparr>id_p = ''1'', name = ''Telefon'', qty = Num 10, price = Num 200, category = ''Xitoy''\<rparr>,
                    \<lparr>id_p = ''2'', name = ''Non'', qty = Num 20, price = Num 10, category = ''O'zbekiston''\<rparr>],
        newCat = ''abc'', openAddCat = False\<rparr>"]
    removeRow_contract [of "''9''" "\<lparr>categories = [''Xitoy'', ''Turkiya''],
        products = [\<lparr>id_p = ''1'', name = ''Telefon'', qty = Num 10, price = Num 200, category = ''Xitoy''\<rparr>,
                    \<lparr>id_p = ''2'', name = ''Non'', qty = Num 20, price = Num 10, category = ''O'zbekiston''\<rparr>],
        newCat = ''abc'', openAddCat = False\<rparr>"]
  by (simp add: removeRow_def)

text \<open>
  Claim C8. \<open>updateRow id patch\<close> keeps the length and the order of the list: at every
  position a record with another identifier stays as it is, and a record with the
  identifier \<open>id\<close> becomes the record merged with the patch, which has the value of the
  patch in the fields the patch lists and the value of the record in the others. When no
  record has the identifier, nothing changes.
\<close>

theorem updateRow_contract:
  "length (products (updateRow i patch st)) = length (products st)
   \<and> (\<forall>k < length (products st).
        (id_p (products st ! k) \<noteq> i \<longrightarrow> products (updateRow i patch st) ! k = products st ! k)
        \<and> (id_p (products st ! k) = i \<longrightarrow>
             products (updateRow i patch st) ! k = spread (products st ! k) patch))
   \<and> (i \<notin> id_p ` set (products st) \<longrightarrow> updateRow i patch st = st)
   \<and> (patch_id patch = None \<longrightarrow> id_p (spread p patch) = id_p p)
   \<and> (patch_name patch = None \<longrightarrow> name (spread p patch) = name p)
   \<and> (patch_qty patch = None \<longrightarrow> qty (spread p patch) = qty p)
   \<and> (patch_price patch = None \<longrightarrow> price (spread p patch) = price p)
   \<and> (patch_category patch = None \<longrightarrow> category (spread p patch) = category p)
   \<and> (\<forall>v. patch_id patch = Some v \<longrightarrow> id_p (spread p patch) = v)
   \<and> (\<forall>v. patch_name patch = Some v \<longrightarrow> name (spread p patch) = v)
   \<and> (\<forall>v. patch_qty patch = Some v \<longrightarrow> qty (spread p patch) = v)
   \<and> (\<forall>v. patch_price patch = Some v \<longrightarrow> price (spread p patch) = v)
   \<and> (\<forall>v. patch_category patch = Some v \<longrightarrow> category (spread p patch) = v)
   \<and> categories (updateRow i patch st) = categories st"
proof -
  have "map (\<lambda>p. if id_p p = i then spread p patch else p) (products st) = products st"
    if "i \<notin> id_p ` set (products st)"
    using that by (intro map_idI) auto
  then have "i \<notin> id_p ` set (products st) \<longrightarrow> updateRow i patch st = st"
    by (simp add: updateRow_def)
  then show ?thesis
    by (simp add: updateRow_def spread_def)
qed

theorem updateRow_contract_witness:
  "products (updateRow ''2''
       \<lparr>patch_id = None, patch_name = None, patch_qty = Some (Num 5), patch_price = None, patch_category = None\<rparr>
       \<lparr>categories = [''Xitoy'', ''Turkiya''],
        products = [\<lparr>id_p = ''1'', name = ''Telefon'', qty = Num 10, price = Num 200, category = ''Xitoy''\<rparr>,
                    \<lparr>id_p = ''2'', name = ''Non'', qty = Num 20, price = Num 10, category = ''O'zbekiston''\<rparr>],
        newCat = ''abc'', openAddCat = False\<rparr>)
     = [\<lparr>id_p = ''1'', name = ''Telefon'', qty = Num 10, price = Num 200, category = ''Xitoy''\<rparr>,
        \<lparr>id_p = ''2'', name = ''Non'', qty = Num 5, price = Num 10, category = ''O'zbekiston''\<rparr>]
   \<and> ''9'' \<notin> id_p ` set (products
       \<lparr>categories = [''Xitoy'', ''Turkiya''],
        products = [\<lparr>id_p = ''1'', name = ''Telefon'', qty = Num 10, price = Num 200, category = ''Xitoy''\<rparr>,
                    \<lparr>id_p = ''2'', name = ''Non'', qty = Num 20, price = Num 10, category = ''O'zbekiston''\<rparr>],
        newCat = ''abc'', openAddCat = False\<rparr>)
   \<and> updateRow ''9''
       \<lparr>patch_id = None, patch_name = None, patch_qty = Some (Num 5), patch_price = None, patch_category = None\<rparr>
       \<lparr>categories = [''Xitoy'', ''Turkiya''],
        products = [\<lparr>id_p = ''1'', name = ''Telefon'', qty = Num 10, price = Num 200, category = ''Xitoy''\<rparr>,
                    \<lparr>id_p = ''2'', name = ''Non'', qty = Num 20, price = Num 10, category = ''O'zbekiston''\<rparr>],
        newCat = ''abc'', openAddCat = False\<rparr>
     = \<lparr>categories = [''Xitoy'', ''Turkiya''],
        products = [\<lparr>id_p = ''1'', name = ''Telefon'', qty = Num 10, price = Num 200, category = ''Xitoy''\<rparr>,
                    \<lparr>id_p = ''2'', name = ''Non'', qty = Num 20, price = Num 10, category = ''O'zbekiston''\<rparr>],
        newCat = ''abc'', openAddCat = False\<rparr>"
  using
    updateRow_contract [of "''2''" "\<lparr>patch_id = None, patch_name = None, patch_qty = Some (Num 5), patch_price = None, patch_category = None\<rparr>" "\<lparr>categories = [''Xitoy'', ''Turkiya''],
        products = [\<lparr>id_p = ''1'', name = ''Telefon'', qty = Num 10, price = Num 200, category = ''Xitoy''\<rparr>,
                    \<lparr>id_p = ''2'', name = ''Non'', qty = Num 20, price = Num 10, category = ''O'zbekiston''\<rparr>],
        newCat = ''abc'', openAddCat = False\<rparr>"]
    updateRow_contract [of "''9''" "\<lparr>patch_id = None, patch_name = None, patch_qty = Some (Num 5), patch_price = None, patch_category = None\<rparr>" "\<lparr>categories = [''Xitoy'', ''Turkiya''],
        products = [\<lparr>id_p = ''1'', name = ''Telefon'', qty = Num 10, price = Num 200, category = ''Xitoy''\<rparr>,
                    \<lparr>id_p = ''2'', name = ''Non'', qty = Num 20, price = Num 10, category = ''O'zbekiston''\<rparr>],
        newCat = ''abc'', openAddCat = False\<rparr>"]
  by (simp add: updateRow_def spread_def)

section \<open>Loading a snapshot\<close>

text \<open>
  Claim C9. \<open>loadLS key fallback\<close> returns the fallback when the key is absent and when
  the stored text does not parse, and returns the parsed value when the stored text
  parses; no exception leaves the call. \<open>JSON.parse\<close> rejects the empty text, which is
  the hypothesis on the parser.
\<close>

theorem loadLS_contract:
  assumes "isl (JSON_parse [])"
  shows "(localStorage key = None \<longrightarrow>
            loadLS JSON_parse localStorage key fallback = Inr fallback)
   \<and> (\<forall>raw. localStorage key = Some raw \<and> isl (JSON_parse raw) \<longrightarrow>
         loadLS JSON_parse localStorage key fallback = Inr fallback)
   \<and> (\<forall>raw v. localStorage key = Some raw \<and> JSON_parse raw = Inr v \<longrightarrow>
         loadLS JSON_parse localStorage key fallback = Inr v)
   \<and> \<not> isl (loadLS JSON_parse localStorage key fallback)"
  using assms
  by (auto simp: loadLS_def loadLS_try_def split: option.splits sum.splits)

theorem loadLS_contract_witness:
  "isl ((\<lambda>s. if s = ''[]'' then Inr [] else Inl SyntaxError) [] :: js_error + string list)
   \<and> loadLS (\<lambda>s. if s = ''[]'' then Inr [] else Inl SyntaxError) Map.empty
       LS_CATEGORIES [''Xitoy'', ''O'zbekiston''] = Inr [''Xitoy'', ''O'zbekiston'']
   \<and> loadLS (\<lambda>s. if s = ''[]'' then Inr [] else Inl SyntaxError) [LS_CATEGORIES \<mapsto> ''[oops'']
       LS_CATEGORIES [''Xitoy'', ''O'zbekiston''] = Inr [''Xitoy'', ''O'zbekiston'']
   \<and> loadLS (\<lambda>s. if s = ''[]'' then Inr [] else Inl SyntaxError) [LS_CATEGORIES \<mapsto> ''[]'']
       LS_CATEGORIES [''Xitoy'', ''O'zbekiston''] = Inr []"
  using
    loadLS_contract [of "\<lambda>s. if s = ''[]'' then Inr [] else Inl SyntaxError" Map.empty LS_CATEGORIES "[''Xitoy'', ''O'zbekiston'']"]
    loadLS_contract [of "\<lambda>s. if s = ''[]'' then Inr [] else Inl SyntaxError" "[LS_CATEGORIES \<mapsto> ''[oops'']" LS_CATEGORIES
      "[''Xitoy'', ''O'zbekiston'']"]
    loadLS_contract [of "\<lambda>s. if s = ''[]'' then Inr [] else Inl SyntaxError" "[LS_CATEGORIES \<mapsto> ''[]'']" LS_CATEGORIES
      "[''Xitoy'', ''O'zbekiston'']"]
  by simp

end
